theory Spec2Isabelle
  imports Main "HOL-Library.Sublist" "HOL-Library.Word" "HOL-Library.AList"
begin

section \<open>Python values and exceptions\<close>

text \<open>
  The handler \<^verbatim>\<open>index\<close> of \<^verbatim>\<open>webhooks.py\<close> works on values that come out of a JSON
  parser. A dictionary is an association list read by its first binding of a key; numbers
  are integers (floating point numbers are not modelled). Strings are byte strings; a
  byte above 127 marks a text that is not ASCII.
\<close>

datatype json =
    JNull
  | JBool bool
  | JNum int
  | JStr string
  | JArr "json list"
  | JObj "(string \<times> json) list"

datatype exc =
    KeyError
  | IndexError
  | TypeError
  | ValueError
  | AttributeError
  | OSError
  | UnicodeDecodeError
  | UnicodeEncodeError
  | LookupError

text \<open>
  A request ends either by \<^verbatim>\<open>abort(status)\<close> or by an exception that nothing catches,
  which the web framework answers with status 500.
\<close>

datatype error = Abort nat | Uncaught exc

definition status_of :: "error \<Rightarrow> nat" where
  "status_of e = (case e of Abort n \<Rightarrow> n | Uncaught _ \<Rightarrow> 500)"

definition bind_exc :: "exc + 'a \<Rightarrow> ('a \<Rightarrow> exc + 'b) \<Rightarrow> exc + 'b" where
  "bind_exc m f = (case m of Inl e \<Rightarrow> Inl e | Inr x \<Rightarrow> f x)"

text \<open>\<^verbatim>\<open>key in value\<close>: key membership for a dict, element membership for a list, substring
  test for a string, \<^verbatim>\<open>TypeError\<close> for anything else.\<close>

definition py_contains :: "string \<Rightarrow> json \<Rightarrow> exc + bool" where
  "py_contains k v =
     (case v of
        JObj kvs \<Rightarrow> Inr (k \<in> set (map fst kvs))
      | JArr xs \<Rightarrow> Inr (JStr k \<in> set xs)
      | JStr s \<Rightarrow> Inr (sublist k s)
      | _ \<Rightarrow> Inl TypeError)"

text \<open>\<^verbatim>\<open>value[key]\<close> with a string key: \<^verbatim>\<open>KeyError\<close> for a dict without the key,
  \<^verbatim>\<open>TypeError\<close> for every value that is not a dict.\<close>

definition py_getitem :: "json \<Rightarrow> string \<Rightarrow> exc + json" where
  "py_getitem v k =
     (case v of
        JObj kvs \<Rightarrow> (case map_of kvs k of None \<Rightarrow> Inl KeyError | Some x \<Rightarrow> Inr x)
      | _ \<Rightarrow> Inl TypeError)"

text \<open>Truth value of a Python object, as \<^verbatim>\<open>if value:\<close> tests it.\<close>

definition truthy :: "json \<Rightarrow> bool" where
  "truthy v =
     (case v of
        JNull \<Rightarrow> False
      | JBool b \<Rightarrow> b
      | JNum n \<Rightarrow> n \<noteq> 0
      | JStr s \<Rightarrow> s \<noteq> []
      | JArr xs \<Rightarrow> xs \<noteq> []
      | JObj kvs \<Rightarrow> kvs \<noteq> [])"

subsection \<open>String operations\<close>

text \<open>\<^verbatim>\<open>s.split(sep, maxsplit)\<close> for a one-character separator: at most \<open>maxsplit\<close> cuts,
  from the left.\<close>

fun split_max :: "char \<Rightarrow> nat \<Rightarrow> string \<Rightarrow> string list" where
  "split_max c 0 s = [s]"
| "split_max c (Suc n) [] = [[]]"
| "split_max c (Suc n) (x # xs) =
     (if x = c then [] # split_max c n xs
      else (case split_max c (Suc n) xs of
              [] \<Rightarrow> [[x]]
            | w # ws \<Rightarrow> (x # w) # ws))"

text \<open>\<^verbatim>\<open>s.split(sep)\<close>: a cut at every separator.\<close>

fun split_chr :: "char \<Rightarrow> string \<Rightarrow> string list" where
  "split_chr c [] = [[]]"
| "split_chr c (x # xs) =
     (if x = c then [] # split_chr c xs
      else (case split_chr c xs of
              [] \<Rightarrow> [[x]]
            | w # ws \<Rightarrow> (x # w) # ws))"

text \<open>\<^verbatim>\<open>xs[i]\<close> for a non-negative index: \<^verbatim>\<open>IndexError\<close> out of range.\<close>

definition py_index :: "'a list \<Rightarrow> nat \<Rightarrow> exc + 'a" where
  "py_index xs i = (if i < length xs then Inr (xs ! i) else Inl IndexError)"

text \<open>\<^verbatim>\<open>value.split('/', 2)[2]\<close>: only a string has the method \<^verbatim>\<open>split\<close>.\<close>

definition py_split_third :: "json \<Rightarrow> exc + json" where
  "py_split_third v =
     (case v of
        JStr s \<Rightarrow> bind_exc (py_index (split_max CHR ''/'' 2 s) 2) (\<lambda>b. Inr (JStr b))
      | _ \<Rightarrow> Inl AttributeError)"

text \<open>\<^verbatim>\<open>os.path.isabs(s)\<close>, \<^verbatim>\<open>os.path.join(a, b)\<close> and \<^verbatim>\<open>os.path.basename(p)\<close> of
  \<^verbatim>\<open>posixpath\<close>: a second component that starts with a slash replaces the first.\<close>

definition isabs :: "string \<Rightarrow> bool" where
  "isabs s = (case s of [] \<Rightarrow> False | c # _ \<Rightarrow> c = CHR ''/'')"

definition join :: "string \<Rightarrow> string \<Rightarrow> string" where
  "join a b =
     (if isabs b then b
      else if a = [] \<or> last a = CHR ''/'' then a @ b
      else a @ ''/'' @ b)"

definition basename :: "string \<Rightarrow> string" where
  "basename p = rev (takeWhile (\<lambda>c. c \<noteq> CHR ''/'') (rev p))"

section \<open>Event metadata (lines 157 to 192)\<close>

text \<open>
  The body of the \<^verbatim>\<open>try\<close> block of lines 160 to 176. The branch starts as \<^verbatim>\<open>None\<close>.
  The test of \<^verbatim>\<open>ref_type\<close> is an \<^verbatim>\<open>if\<close> nested in the first arm of the chain, so a
  payload that has the key with another value takes no later arm.
\<close>

definition branch_rules :: "string \<Rightarrow> json \<Rightarrow> exc + json" where
  "branch_rules event payload =
     bind_exc (py_contains ''ref_type'' payload) (\<lambda>has_ref_type.
       if has_ref_type then
         bind_exc (py_getitem payload ''ref_type'') (\<lambda>t.
           if t = JStr ''branch'' then py_getitem payload ''ref'' else Inr JNull)
       else
         bind_exc (py_contains ''pull_request'' payload) (\<lambda>has_pr.
           if has_pr then
             bind_exc (py_getitem payload ''pull_request'') (\<lambda>pr.
               bind_exc (py_getitem pr ''base'') (\<lambda>base.
                 py_getitem base ''ref''))
           else if event \<in> set [''push''] then
             bind_exc (py_getitem payload ''ref'') py_split_third
           else Inr JNull))"

text \<open>\<^verbatim>\<open>except KeyError: pass\<close> (line 178): only this exception is caught, and the branch
  stays \<^verbatim>\<open>None\<close>.\<close>

definition determine_branch :: "string \<Rightarrow> json \<Rightarrow> exc + json" where
  "determine_branch event payload =
     (case branch_rules event payload of
        Inl KeyError \<Rightarrow> Inr JNull
      | r \<Rightarrow> r)"

text \<open>Line 185, outside the \<^verbatim>\<open>try\<close> block.\<close>

definition repository_name :: "json \<Rightarrow> exc + json" where
  "repository_name payload =
     bind_exc (py_contains ''repository'' payload) (\<lambda>has_repo.
       if has_repo then
         bind_exc (py_getitem payload ''repository'') (\<lambda>repo. py_getitem repo ''name'')
       else Inr JNull)"

record metadata =
  meta_name :: json
  meta_branch :: json
  meta_event :: string

definition extract_metadata :: "string \<Rightarrow> json \<Rightarrow> exc + metadata" where
  "extract_metadata event payload =
     bind_exc (determine_branch event payload) (\<lambda>branch.
       bind_exc (repository_name payload) (\<lambda>name.
         Inr \<lparr>meta_name = name, meta_branch = branch, meta_event = event\<rparr>))"

section \<open>What the handler is given\<close>

text \<open>
  The configuration document, with the defaults of \<^verbatim>\<open>config.get\<close> already applied, and
  the parts of the request the handler reads. \<open>get_json\<close> is \<open>None\<close> when
  \<^verbatim>\<open>request.get_json()\<close> raises.
\<close>

record config =
  hooks_path :: string
  github_ips_only :: bool
  allow_loopback :: bool
  enforce_secret :: string
  return_scripts_info :: bool

record request =
  req_method :: string
  access_route :: "string list"
  hub_signature :: "string option"
  github_event :: "string option"
  req_data :: string
  get_json :: "json option"

text \<open>
  The answer of \<^verbatim>\<open>requests.get\<close>: \<open>resp_etag\<close> is \<^verbatim>\<open>resp.headers['eTag']\<close> (\<open>None\<close> when
  the header is missing) and \<open>resp_hooks\<close> is \<^verbatim>\<open>resp.json()['hooks']\<close> or the exception
  that reading it raises.
\<close>

record response =
  status_code :: nat
  resp_etag :: "string option"
  resp_hooks :: "exc + string list"

text \<open>The class \<^verbatim>\<open>GithubMeta\<close> (lines 42 to 67), created once with an empty list and an
  empty tag.\<close>

record github_meta =
  ips :: "string list"
  etag :: string

definition GithubMeta :: github_meta where
  "GithubMeta = \<lparr>ips = [], etag = []\<rparr>"

text \<open>
  What a request can change or cause: the process-wide cache \<^verbatim>\<open>ghm\<close>, the temporary
  files that exist, the HTTP requests sent (URL and headers) and the processes started
  (their argument vectors), both in order.
\<close>

record world =
  ghm :: github_meta
  files :: "string set"
  fetched :: "(string \<times> (string \<times> string) list) list"
  spawned :: "string list list"

text \<open>
  The libraries and the operating system, as parameters: the remote server, the
  \<^verbatim>\<open>ipaddress\<close> module (\<open>in_network\<close> is \<open>None\<close> when \<^verbatim>\<open>ip_network\<close> rejects the range),
  the HMAC-SHA1 digest as bytes, the file tests, the name \<^verbatim>\<open>mkstemp\<close> picks, a hook
  process (given the processes started before it and its argument vector, either
  \<^verbatim>\<open>Popen\<close> raises or the process ends with a return code and two byte streams), UTF-8
  decoding, and \<^verbatim>\<open>str\<close> of a list or dict. Hook processes are taken not to touch the
  temporary file. Logging does not change what the handler returns and is left out; a
  network failure of \<^verbatim>\<open>requests.get\<close>, a failure of \<^verbatim>\<open>mkstemp\<close> or of writing the payload,
  and reading \<^verbatim>\<open>config.json\<close> are not modelled. \<open>python3\<close> tells whether the interpreter
  is Python 3 (otherwise it is Python 2, for which the handler was written), and
  \<open>has_http_exception\<close> tells for which status codes the web framework has an HTTP
  exception class.
\<close>

record env =
  requests_get :: "string \<Rightarrow> (string \<times> string) list \<Rightarrow> response"
  valid_address :: "string \<Rightarrow> bool"
  in_network :: "string \<Rightarrow> string \<Rightarrow> bool option"
  hmac_sha1 :: "string \<Rightarrow> string \<Rightarrow> 8 word list"
  isfile :: "string \<Rightarrow> bool"
  access_x :: "string \<Rightarrow> bool"
  mkstemp :: "string set \<Rightarrow> string"
  popen :: "string list list \<Rightarrow> string list \<Rightarrow> exc + (int \<times> 8 word list \<times> 8 word list)"
  decode_utf8 :: "8 word list \<Rightarrow> string option"
  py_repr :: "json \<Rightarrow> string"
  python3 :: bool
  has_http_exception :: "nat \<Rightarrow> bool"

text \<open>
  \<^verbatim>\<open>abort(code)\<close> of the web framework looks the code up among its HTTP exception classes:
  it raises the exception of that status when there is one and \<^verbatim>\<open>LookupError\<close> otherwise.
  The handler also calls it with the literal codes 400, 403 and 501, which always have a
  class (\<^verbatim>\<open>BadRequest\<close>, \<^verbatim>\<open>Forbidden\<close>, \<^verbatim>\<open>NotImplemented\<close>); those calls are written
  \<open>Abort 400\<close>, \<open>Abort 403\<close> and \<open>Abort 501\<close> below.
\<close>

definition abort :: "env \<Rightarrow> nat \<Rightarrow> error" where
  "abort env code = (if has_http_exception env code then Abort code else Uncaught LookupError)"

section \<open>Allow-list (lines 88 to 117)\<close>

definition meta_url :: string where
  "meta_url = ''https://api.github.com/meta''"

definition loopback :: string where
  "loopback = ''127.0.0.0/8''"

text \<open>Lines 93 to 101. The tag is stored before the body is read.\<close>

definition refresh :: "env \<Rightarrow> world \<Rightarrow> (error + unit) \<times> world" where
  "refresh env w =
     (let hdrs = [(''If-None-Match'', etag (ghm w))];
          resp = requests_get env meta_url hdrs;
          w1 = w\<lparr>fetched := fetched w @ [(meta_url, hdrs)]\<rparr>
      in if status_code resp \<in> set [200] then
           (case resp_etag resp of
              None \<Rightarrow> (Inl (Uncaught KeyError), w1)
            | Some t \<Rightarrow>
                (let w2 = w1\<lparr>ghm := (ghm w1)\<lparr>etag := t\<rparr>\<rparr>
                 in case resp_hooks resp of
                      Inl e \<Rightarrow> (Inl (Uncaught e), w2)
                    | Inr hs \<Rightarrow> (Inr (), w2\<lparr>ghm := (ghm w2)\<lparr>ips := hs\<rparr>\<rparr>)))
         else if status_code resp \<notin> set [304] then (Inl (abort env (status_code resp)), w1)
         else (Inr (), w1))"

text \<open>Lines 105 to 107: \<^verbatim>\<open>whitelist\<close> is the cached list itself, so appending to it
  changes the cache.\<close>

definition add_loopback :: "config \<Rightarrow> world \<Rightarrow> world" where
  "add_loopback cfg w =
     (if allow_loopback cfg \<and> loopback \<notin> set (ips (ghm w))
      then w\<lparr>ghm := (ghm w)\<lparr>ips := ips (ghm w) @ [loopback]\<rparr>\<rparr>
      else w)"

text \<open>The \<^verbatim>\<open>for ... else\<close> loop of lines 109 to 117.\<close>

fun in_whitelist :: "env \<Rightarrow> string \<Rightarrow> string list \<Rightarrow> exc + bool" where
  "in_whitelist env src [] = Inr False"
| "in_whitelist env src (valid_ip # rest) =
     (case in_network env src valid_ip of
        None \<Rightarrow> Inl ValueError
      | Some True \<Rightarrow> Inr True
      | Some False \<Rightarrow> in_whitelist env src rest)"

definition check_source :: "env \<Rightarrow> config \<Rightarrow> request \<Rightarrow> world \<Rightarrow> (error + unit) \<times> world" where
  "check_source env cfg req w =
     (if github_ips_only cfg then
        (case py_index (access_route req) 0 of
           Inl e \<Rightarrow> (Inl (Uncaught e), w)
         | Inr src_ip \<Rightarrow>
             if \<not> valid_address env src_ip then (Inl (Uncaught ValueError), w)
             else
               (case refresh env w of
                  (Inl e, w1) \<Rightarrow> (Inl e, w1)
                | (Inr _, w1) \<Rightarrow>
                    (let w2 = add_loopback cfg w1
                     in case in_whitelist env src_ip (ips (ghm w2)) of
                          Inl e \<Rightarrow> (Inl (Uncaught e), w2)
                        | Inr True \<Rightarrow> (Inr (), w2)
                        | Inr False \<Rightarrow> (Inl (Abort 403), w2))))
      else (Inr (), w))"

section \<open>Signature (lines 119 to 143)\<close>

definition hexdigit :: "nat \<Rightarrow> char" where
  "hexdigit n = ''0123456789abcdef'' ! (n mod 16)"

text \<open>\<^verbatim>\<open>mac.hexdigest()\<close>: two lowercase hexadecimal digits for each byte.\<close>

definition hexdigest :: "8 word list \<Rightarrow> string" where
  "hexdigest bs = concat (map (\<lambda>b. [hexdigit (unat b div 16), hexdigit (unat b mod 16)]) bs)"

text \<open>A text is ASCII when the top bit of each of its bytes is clear.\<close>

definition is_ascii :: "string \<Rightarrow> bool" where
  "is_ascii s = list_all (\<lambda>c. \<not> digit7 c) s"

text \<open>
  \<^verbatim>\<open>str(x)\<close> of a text that came from JSON or from a request header. Under Python 2 such a
  text is a \<^verbatim>\<open>unicode\<close> object, and \<^verbatim>\<open>str\<close> encodes it as ASCII or raises
  \<^verbatim>\<open>UnicodeEncodeError\<close>; under Python 3 it is a \<^verbatim>\<open>str\<close> already.
\<close>

definition str_text :: "env \<Rightarrow> string \<Rightarrow> exc + string" where
  "str_text env s = (if python3 env \<or> is_ascii s then Inr s else Inl UnicodeEncodeError)"

text \<open>
  \<^verbatim>\<open>hmac.new(key=..., msg=request.data, digestmod=hashlib.sha1)\<close> with the key that
  \<^verbatim>\<open>str(secret)\<close> gave (line 132). Under Python 3 that key is a \<^verbatim>\<open>str\<close>, not bytes, and
  \<^verbatim>\<open>hmac.new\<close> raises \<^verbatim>\<open>TypeError\<close>; under Python 2 it is a byte string and the digest is
  computed.
\<close>

definition hmac_new :: "env \<Rightarrow> string \<Rightarrow> string \<Rightarrow> exc + 8 word list" where
  "hmac_new env key msg = (if python3 env then Inl TypeError else Inr (hmac_sha1 env key msg))"

text \<open>
  The comparison of lines 135 to 143. \<^verbatim>\<open>hmac.compare_digest\<close> and \<^verbatim>\<open>!=\<close> both test the two
  byte strings of Python 2 for equality; \<^verbatim>\<open>hmac.compare_digest\<close> of Python 3 raises
  \<^verbatim>\<open>TypeError\<close> for a \<^verbatim>\<open>str\<close> that is not ASCII.
\<close>

definition compare_digest :: "env \<Rightarrow> string \<Rightarrow> string \<Rightarrow> exc + bool" where
  "compare_digest env a b =
     (if python3 env \<and> \<not> (is_ascii a \<and> is_ascii b) then Inl TypeError else Inr (a = b))"

text \<open>
  The unpacking \<^verbatim>\<open>sha_name, signature = header_signature.split('=')\<close> needs exactly two
  parts and raises \<^verbatim>\<open>ValueError\<close> otherwise. The tag is tested before the digest is
  computed.
\<close>

definition verify_signature :: "env \<Rightarrow> config \<Rightarrow> request \<Rightarrow> error + unit" where
  "verify_signature env cfg req =
     (let secret = enforce_secret cfg
      in if secret \<noteq> [] then
           (case hub_signature req of
              None \<Rightarrow> Inl (Abort 403)
            | Some header_signature \<Rightarrow>
                (case split_chr CHR ''='' header_signature of
                   [sha_name, signature] \<Rightarrow>
                     if sha_name \<noteq> ''sha1'' then Inl (Abort 501)
                     else
                       (case bind_exc (str_text env secret)
                               (\<lambda>key. hmac_new env key (req_data req)) of
                          Inl e \<Rightarrow> Inl (Uncaught e)
                        | Inr mac \<Rightarrow>
                            (case bind_exc (str_text env signature)
                                    (compare_digest env (hexdigest mac)) of
                               Inl e \<Rightarrow> Inl (Uncaught e)
                             | Inr same \<Rightarrow> if \<not> same then Inl (Abort 403) else Inr ()))
                 | _ \<Rightarrow> Inl (Uncaught ValueError)))
         else Inr ())"

section \<open>Hook resolution (lines 199 to 211)\<close>

text \<open>\<^verbatim>\<open>str\<close> of a value, which \<^verbatim>\<open>format\<close> applies to each field.\<close>

fun show_nat :: "nat \<Rightarrow> string" where
  "show_nat n =
     (if n < 10 then [''0123456789'' ! n]
      else show_nat (n div 10) @ [''0123456789'' ! (n mod 10)])"

declare show_nat.simps [simp del]

definition py_str :: "env \<Rightarrow> json \<Rightarrow> string" where
  "py_str env v =
     (case v of
        JNull \<Rightarrow> ''None''
      | JBool b \<Rightarrow> (if b then ''True'' else ''False'')
      | JNum i \<Rightarrow> (if i < 0 then ''-'' @ show_nat (nat (- i)) else show_nat (nat i))
      | JStr s \<Rightarrow> s
      | _ \<Rightarrow> py_repr env v)"

text \<open>Lines 200 to 206: one entry for each pattern that applies, appended in this order.
  Nothing removes an entry that is already in the list.\<close>

definition possible_hooks :: "env \<Rightarrow> string \<Rightarrow> metadata \<Rightarrow> string list" where
  "possible_hooks env hooks meta =
     (let event = meta_event meta;
          name = meta_name meta;
          branch = meta_branch meta
      in (if truthy branch \<and> truthy name
          then [join hooks (event @ ''-'' @ py_str env name @ ''-'' @ py_str env branch)]
          else [])
       @ (if truthy name then [join hooks (event @ ''-'' @ py_str env name)] else [])
       @ [join hooks event]
       @ [join hooks ''all''])"

text \<open>Line 209.\<close>

definition check_permissions :: "env \<Rightarrow> string list \<Rightarrow> string list" where
  "check_permissions env scripts = filter (\<lambda>s. isfile env s \<and> access_x env s) scripts"

section \<open>Hook execution (lines 213 to 249)\<close>

definition hook_info :: "int \<Rightarrow> string \<Rightarrow> string \<Rightarrow> json" where
  "hook_info returncode out err =
     JObj [(''returncode'', JNum returncode), (''stdout'', JStr out), (''stderr'', JStr err)]"

text \<open>
  The loop of lines 220 to 238. An exception of \<^verbatim>\<open>Popen\<close> or of either \<^verbatim>\<open>decode\<close> leaves
  the loop and the handler; a return code that is not zero is only logged.
\<close>

fun run_scripts ::
  "env \<Rightarrow> string \<Rightarrow> string \<Rightarrow> string list \<Rightarrow> (string \<times> json) list \<Rightarrow> world
     \<Rightarrow> (exc + (string \<times> json) list) \<times> world" where
  "run_scripts env tmpfile event [] ran_dict w = (Inr ran_dict, w)"
| "run_scripts env tmpfile event (scr # rest) ran_dict w =
     (let argv = [scr, tmpfile, event];
          w1 = w\<lparr>spawned := spawned w @ [argv]\<rparr>
      in case popen env (spawned w) argv of
           Inl e \<Rightarrow> (Inl e, w1)
         | Inr (returncode, p_stdout, p_stderr) \<Rightarrow>
             (case decode_utf8 env p_stdout of
                None \<Rightarrow> (Inl UnicodeDecodeError, w1)
              | Some out \<Rightarrow>
                  (case decode_utf8 env p_stderr of
                     None \<Rightarrow> (Inl UnicodeDecodeError, w1)
                   | Some err \<Rightarrow>
                       run_scripts env tmpfile event rest
                         (AList.update (basename scr) (hook_info returncode out err) ran_dict) w1)))"

text \<open>\<^verbatim>\<open>os.remove\<close>: \<^verbatim>\<open>OSError\<close> when the file does not exist.\<close>

definition remove_file :: "string \<Rightarrow> world \<Rightarrow> (exc + unit) \<times> world" where
  "remove_file f w =
     (if f \<in> files w then (Inr (), w\<lparr>files := files w - {f}\<rparr>) else (Inl OSError, w))"

text \<open>The documents the handler passes to \<^verbatim>\<open>dumps\<close> and returns.\<close>

definition pong :: json where
  "pong = JObj [(''msg'', JStr ''pong'')]"

definition status_doc :: "string \<Rightarrow> json" where
  "status_doc s = JObj [(''status'', JStr s)]"

text \<open>Lines 213 to 249. The only \<^verbatim>\<open>remove(tmpfile)\<close> is the statement after the loop;
  there is no \<^verbatim>\<open>try ... finally\<close> around the loop.\<close>

definition execute_hooks ::
  "env \<Rightarrow> config \<Rightarrow> string \<Rightarrow> string list \<Rightarrow> world \<Rightarrow> (error + json) \<times> world" where
  "execute_hooks env cfg event scripts w =
     (let tmpfile = mkstemp env (files w);
          w1 = w\<lparr>files := insert tmpfile (files w)\<rparr>
      in case run_scripts env tmpfile event scripts [] w1 of
           (Inl e, w2) \<Rightarrow> (Inl (Uncaught e), w2)
         | (Inr ran_dict, w2) \<Rightarrow>
             (case remove_file tmpfile w2 of
                (Inl e, w3) \<Rightarrow> (Inl (Uncaught e), w3)
              | (Inr _, w3) \<Rightarrow>
                  if \<not> return_scripts_info cfg then (Inr (status_doc ''done''), w3)
                  else (Inr (JObj ran_dict), w3)))"

section \<open>The handler (lines 71 to 249)\<close>

text \<open>Line 195: \<^verbatim>\<open>event == 'push' and payload['deleted']\<close>; the subscript is evaluated for
  every push event.\<close>

definition push_delete :: "string \<Rightarrow> json \<Rightarrow> exc + bool" where
  "push_delete event payload =
     (if event = ''push'' then bind_exc (py_getitem payload ''deleted'') (\<lambda>d. Inr (truthy d))
      else Inr False)"

text \<open>Lines 157 to 249, from the parsed payload on.\<close>

definition dispatch ::
  "env \<Rightarrow> config \<Rightarrow> string \<Rightarrow> json \<Rightarrow> world \<Rightarrow> (error + json) \<times> world" where
  "dispatch env cfg event payload w =
     (case extract_metadata event payload of
        Inl e \<Rightarrow> (Inl (Uncaught e), w)
      | Inr meta \<Rightarrow>
          (case push_delete event payload of
             Inl e \<Rightarrow> (Inl (Uncaught e), w)
           | Inr True \<Rightarrow> (Inr (status_doc ''skipped''), w)
           | Inr False \<Rightarrow>
               (let scripts = check_permissions env (possible_hooks env (hooks_path cfg) meta)
                in if scripts = [] then (Inr (status_doc ''nop''), w)
                   else execute_hooks env cfg event scripts w)))"

definition index :: "env \<Rightarrow> config \<Rightarrow> request \<Rightarrow> world \<Rightarrow> (error + json) \<times> world" where
  "index env cfg req w =
     (if req_method req \<noteq> ''POST'' then (Inl (Abort 501), w)
      else
        (case check_source env cfg req w of
           (Inl e, w1) \<Rightarrow> (Inl e, w1)
         | (Inr _, w1) \<Rightarrow>
             (case verify_signature env cfg req of
                Inl e \<Rightarrow> (Inl e, w1)
              | Inr _ \<Rightarrow>
                  (let event = (case github_event req of None \<Rightarrow> ''ping'' | Some e \<Rightarrow> e)
                   in if event = ''ping'' then (Inr pong, w1)
                      else
                        (case get_json req of
                           None \<Rightarrow> (Inl (Abort 400), w1)
                         | Some payload \<Rightarrow> dispatch env cfg event payload w1)))))"

section \<open>Auxiliary notions and sample data\<close>

text \<open>
  Every hook invocation of the loop returns: \<^verbatim>\<open>Popen\<close> starts the process and both of its
  output streams decode, whatever the return code. \<open>started\<close> is the list of processes
  started so far.
\<close>

fun hooks_return :: "env \<Rightarrow> string \<Rightarrow> string \<Rightarrow> string list \<Rightarrow> string list list \<Rightarrow> bool" where
  "hooks_return env tmpfile event [] started = True"
| "hooks_return env tmpfile event (scr # rest) started =
     (case popen env started [scr, tmpfile, event] of
        Inl e \<Rightarrow> False
      | Inr (returncode, p_stdout, p_stderr) \<Rightarrow>
          decode_utf8 env p_stdout \<noteq> None \<and> decode_utf8 env p_stderr \<noteq> None \<and>
          hooks_return env tmpfile event rest (started @ [[scr, tmpfile, event]]))"

text \<open>
  A sample installation: the hooks directory \<^verbatim>\<open>/srv/hooks\<close> holds the executable files
  \<^verbatim>\<open>push\<close> and \<^verbatim>\<open>all\<close>, every hook prints nothing and returns 0, the remote server
  answers 304, the digest is two fixed bytes, the interpreter is Python 2, and the web
  framework has the HTTP exception classes of \<^verbatim>\<open>werkzeug.exceptions\<close>.
\<close>

definition werkzeug_codes :: "nat list" where
  "werkzeug_codes =
     [400, 401, 403, 404, 405, 406, 408, 409, 410, 411, 412, 413, 414, 415, 416, 417, 418,
      421, 422, 423, 424, 428, 429, 431, 451, 500, 501, 502, 503, 504, 505]"

definition sample_env :: env where
  "sample_env =
     \<lparr>requests_get = (\<lambda>url hdrs. \<lparr>status_code = 304, resp_etag = None, resp_hooks = Inl ValueError\<rparr>),
      valid_address = (\<lambda>a. True),
      in_network = (\<lambda>a n. Some (n = ''192.30.252.0/22'')),
      hmac_sha1 = (\<lambda>k m. [0x5a, 0x0f]),
      isfile = (\<lambda>p. p = ''/srv/hooks/push'' \<or> p = ''/srv/hooks/all''),
      access_x = (\<lambda>p. True),
      mkstemp = (\<lambda>existing. ''/tmp/tmpq1w2e3''),
      popen = (\<lambda>started argv. Inr (0, [], [])),
      decode_utf8 = (\<lambda>bs. if bs = [] then Some [] else None),
      py_repr = (\<lambda>v. ''[]''),
      python3 = False,
      has_http_exception = (\<lambda>code. code \<in> set werkzeug_codes)\<rparr>"

definition sample_config :: config where
  "sample_config =
     \<lparr>hooks_path = ''/srv/hooks'',
      github_ips_only = False,
      allow_loopback = False,
      enforce_secret = [],
      return_scripts_info = False\<rparr>"

definition sample_request :: request where
  "sample_request =
     \<lparr>req_method = ''POST'',
      access_route = [''192.30.252.1''],
      hub_signature = None,
      github_event = Some ''push'',
      req_data = [],
      get_json = Some (JObj [(''ref'', JStr ''refs/heads/main''), (''deleted'', JBool False)])\<rparr>"

definition sample_world :: world where
  "sample_world =
     \<lparr>ghm = \<lparr>ips = [''192.30.252.0/22''], etag = ''abc''\<rparr>,
      files = {},
      fetched = [],
      spawned = []\<rparr>"

section \<open>Facts about the string operations\<close>

lemma split_chr_nonempty: "split_chr c s \<noteq> []"
  by (induction s) (auto split: list.splits)

lemma length_split_chr: "length (split_chr c s) = Suc (count_list s c)"
  by (induction s) (auto split: list.splits simp: split_chr_nonempty)

lemma split_chr_no_sep: "c \<notin> set s \<Longrightarrow> split_chr c s = [s]"
  by (induction s) auto

lemma split_chr_append: "c \<notin> set a \<Longrightarrow> split_chr c (a @ c # b) = a # split_chr c b"
  by (induction a) auto

lemma split_chr_single: "split_chr c s = [a] \<Longrightarrow> s = a \<and> c \<notin> set a"
  by (induction s arbitrary: a) (auto split: if_splits list.splits simp: split_chr_nonempty)

lemma split_chr_pair:
  "split_chr c s = [a, b] \<Longrightarrow> s = a @ c # b \<and> c \<notin> set a \<and> c \<notin> set b"
proof (induction s arbitrary: a)
  case Nil
  then show ?case by simp
next
  case (Cons x xs)
  show ?case
  proof (cases "x = c")
    case True
    with Cons.prems have "a = []" and "split_chr c xs = [b]" by auto
    with True split_chr_single [of c xs b] show ?thesis by auto
  next
    case False
    with Cons.prems obtain w where "split_chr c xs = [w, b]" and "a = x # w"
      by (auto split: list.splits)
    with Cons.IH [of w] False show ?thesis by auto
  qed
qed

lemma split_chr_pair_iff:
  "split_chr c s = [a, b] \<longleftrightarrow> s = a @ c # b \<and> c \<notin> set a \<and> c \<notin> set b"
  using split_chr_pair [of c s a b] split_chr_append [of c a b] split_chr_no_sep [of c b]
  by auto

lemma hexdigit_in: "hexdigit n \<in> set ''0123456789abcdef''"
  unfolding hexdigit_def by (rule nth_mem) simp

lemma hexdigit_not_eq: "hexdigit n \<noteq> CHR ''=''"
  using hexdigit_in [of n] by auto

lemma hexdigest_no_eq: "CHR ''='' \<notin> set (hexdigest bs)"
  by (induction bs) (auto simp: hexdigest_def hexdigit_not_eq hexdigit_not_eq [symmetric])

lemma join_relative:
  "\<not> isabs b \<Longrightarrow> join a b = (if a = [] \<or> last a = CHR ''/'' then a @ b else a @ ''/'' @ b)"
  by (simp add: join_def)



lemma not_isabs_no_slash: "CHR ''/'' \<notin> set b \<Longrightarrow> \<not> isabs b"
  by (cases b) (auto simp: isabs_def)

lemma takeWhile_stop: "c \<notin> set xs \<Longrightarrow> takeWhile (\<lambda>x. x \<noteq> c) (xs @ c # r) = xs"
  by (induction xs) auto

lemma takeWhile_all: "c \<notin> set xs \<Longrightarrow> takeWhile (\<lambda>x. x \<noteq> c) xs = xs"
  by (induction xs) auto

lemma basename_append_slash: "CHR ''/'' \<notin> set b \<Longrightarrow> basename (a @ CHR ''/'' # b) = b"
  using takeWhile_stop [of "CHR ''/''" "rev b" "rev a"] by (simp add: basename_def)

lemma basename_join:
  assumes nb: "CHR ''/'' \<notin> set b"
  shows "basename (join a b) = b"
proof (cases "a = []")
  case True
  with nb show ?thesis
    by (simp add: join_relative not_isabs_no_slash basename_def takeWhile_all)
next
  case False
  show ?thesis
  proof (cases "last a = CHR ''/''")
    case True
    with False have "a = butlast a @ [CHR ''/'']"
      by (metis append_butlast_last_id)
    then have "a @ b = butlast a @ CHR ''/'' # b"
      by (metis append_Cons append_Nil append_assoc)
    then have "basename (a @ b) = b"
      using basename_append_slash [OF nb, of "butlast a"] by metis
    with nb False True show ?thesis
      by (simp add: join_relative not_isabs_no_slash)
  next
    case F2: False
    with nb False show ?thesis
      by (simp add: join_relative not_isabs_no_slash basename_append_slash)
  qed
qed

section \<open>What the stages leave untouched\<close>

lemma run_scripts_files: "files (snd (run_scripts env t ev scripts r w)) = files w"
  by (induction scripts arbitrary: r w)
     (simp_all add: Let_def split: sum.splits option.splits prod.splits)

lemma refresh_files: "files (snd (refresh env w)) = files w"
  by (simp add: refresh_def Let_def split: option.splits sum.splits)

lemma refresh_spawned: "spawned (snd (refresh env w)) = spawned w"
  by (simp add: refresh_def Let_def split: option.splits sum.splits)

lemma add_loopback_files: "files (add_loopback cfg w) = files w"
  by (simp add: add_loopback_def)

lemma add_loopback_spawned: "spawned (add_loopback cfg w) = spawned w"
  by (simp add: add_loopback_def)

lemma check_source_files: "files (snd (check_source env cfg req w)) = files w"
proof (cases "refresh env w")
  case (Pair r w1)
  then have "files w1 = files w" using refresh_files [of env w] by simp
  with Pair show ?thesis
    by (simp add: check_source_def Let_def add_loopback_files split: sum.splits bool.splits)
qed

lemma check_source_spawned: "spawned (snd (check_source env cfg req w)) = spawned w"
proof (cases "refresh env w")
  case (Pair r w1)
  then have "spawned w1 = spawned w" using refresh_spawned [of env w] by simp
  with Pair show ?thesis
    by (simp add: check_source_def Let_def add_loopback_spawned split: sum.splits bool.splits)
qed

section \<open>Event metadata: verified properties\<close>

lemmas extraction_defs = determine_branch_def branch_rules_def py_contains_def py_getitem_def
  bind_exc_def py_split_third_def py_index_def extract_metadata_def repository_name_def

text \<open>
  C2. The specification says that metadata extraction never fails: a \<^verbatim>\<open>ref\<close> with too few
  segments on a push event, a value under \<^verbatim>\<open>pull_request\<close> that is not a mapping, or a
  \<^verbatim>\<open>repository\<close> mapping without \<^verbatim>\<open>name\<close> would give an absent branch or name. The
  handler catches \<^verbatim>\<open>KeyError\<close> only, and only around the branch rules: on these three
  payloads extraction raises \<^verbatim>\<open>IndexError\<close>, \<^verbatim>\<open>TypeError\<close> and \<^verbatim>\<open>KeyError\<close>, and the
  exception leaves the handler uncaught.
\<close>

theorem extraction_propagates_errors:
  "extract_metadata ''push'' (JObj [(''ref'', JStr ''main'')]) = Inl IndexError
   \<and> extract_metadata ''pull_request'' (JObj [(''pull_request'', JStr ''x'')]) = Inl TypeError
   \<and> extract_metadata ''issues'' (JObj [(''repository'', JObj [])]) = Inl KeyError
   \<and> fst (dispatch env cfg ''push'' (JObj [(''ref'', JStr ''main'')]) w) = Inl (Uncaught IndexError)"
  by (simp add: extraction_defs dispatch_def eval_nat_numeral)

text \<open>
  A push event whose payload has \<^verbatim>\<open>ref_type\<close> equal to \<^verbatim>\<open>tag\<close>: the third segment of its
  \<^verbatim>\<open>ref\<close> is \<^verbatim>\<open>v1\<close>, and the branch the handler determines is \<^verbatim>\<open>None\<close>.
\<close>

theorem ref_type_tag_counterexample:
  "py_split_third (JStr ''refs/tags/v1'') = Inr (JStr ''v1'')
   \<and> determine_branch ''push'' (JObj [(''ref_type'', JStr ''tag''), (''ref'', JStr ''refs/tags/v1'')])
       = Inr JNull"
  by (simp add: extraction_defs eval_nat_numeral)

text \<open>
  C3, as the code has it. For every payload whose \<^verbatim>\<open>ref_type\<close> field is present and not
  equal to \<^verbatim>\<open>branch\<close>, no later rule applies: the branch is absent for every event type,
  push included.
\<close>

theorem ref_type_not_branch:
  "map_of kvs ''ref_type'' = Some t \<Longrightarrow> t \<noteq> JStr ''branch''
   \<Longrightarrow> determine_branch event (JObj kvs) = Inr JNull"
proof -
  assume m: "map_of kvs ''ref_type'' = Some t" and t: "t \<noteq> JStr ''branch''"
  from m have "''ref_type'' \<in> set (map fst kvs)"
    by (metis map_of_eq_None_iff option.distinct(1) set_map)
  with m t show ?thesis
    by (simp add: determine_branch_def branch_rules_def py_contains_def py_getitem_def bind_exc_def)
qed

theorem ref_type_not_branch_witness:
  "map_of [(''ref_type'', JStr ''tag''), (''ref'', JStr ''v2.0'')] ''ref_type'' = Some (JStr ''tag'')
   \<and> JStr ''tag'' \<noteq> JStr ''branch''
   \<and> determine_branch ''create'' (JObj [(''ref_type'', JStr ''tag''), (''ref'', JStr ''v2.0'')])
       = Inr JNull"
  using ref_type_not_branch [of "[(''ref_type'', JStr ''tag''), (''ref'', JStr ''v2.0'')]"
      "JStr ''tag''" "''create''"]
  by simp

section \<open>Hook resolution: verified properties\<close>

text \<open>
  C6. For event type \<^verbatim>\<open>push\<close>, repository name \<^verbatim>\<open>repo\<close> and branch \<^verbatim>\<open>main\<close> the candidate
  list is the hooks directory joined with \<^verbatim>\<open>push-repo-main\<close>, \<^verbatim>\<open>push-repo\<close>, \<^verbatim>\<open>push\<close> and
  \<^verbatim>\<open>all\<close>, in that order, so that the names of the candidates are exactly these four; and
  for every metadata the list kept by the test for executable files is a subsequence of the
  candidate list.
\<close>

theorem push_repo_main_candidates:
  "possible_hooks env hooks \<lparr>meta_name = JStr ''repo'', meta_branch = JStr ''main'', meta_event = ''push''\<rparr>
     = map (join hooks) [''push-repo-main'', ''push-repo'', ''push'', ''all'']
   \<and> map basename
       (possible_hooks env hooks
          \<lparr>meta_name = JStr ''repo'', meta_branch = JStr ''main'', meta_event = ''push''\<rparr>)
     = [''push-repo-main'', ''push-repo'', ''push'', ''all'']
   \<and> subseq (check_permissions env (possible_hooks env hooks meta)) (possible_hooks env hooks meta)"
  by (simp add: possible_hooks_def truthy_def py_str_def basename_join check_permissions_def)

section \<open>Signature: verified properties\<close>

text \<open>
  C10. With a non-empty secret configured, every \<^verbatim>\<open>X-Hub-Signature\<close> value that does not
  contain exactly one \<^verbatim>\<open>=\<close> makes the unpacking of the split raise \<^verbatim>\<open>ValueError\<close>, which
  nothing catches (status 500, neither 403 nor 501); a POST request that passed the source
  check ends with it.
\<close>

theorem malformed_signature_raises:
  assumes "enforce_secret cfg \<noteq> []" and "hub_signature req = Some h"
    and "count_list h CHR ''='' \<noteq> 1"
  shows "verify_signature env cfg req = Inl (Uncaught ValueError)
    \<and> status_of (Uncaught ValueError) = 500
    \<and> (req_method req = ''POST'' \<and> fst (check_source env cfg req w) = Inr ()
        \<longrightarrow> fst (index env cfg req w) = Inl (Uncaught ValueError))"
proof -
  from assms(3) have "length (split_chr CHR ''='' h) \<noteq> 2"
    by (simp add: length_split_chr)
  then have "\<And>a b. split_chr CHR ''='' h \<noteq> [a, b]" by auto
  with assms(1,2) have v: "verify_signature env cfg req = Inl (Uncaught ValueError)"
    by (simp add: verify_signature_def Let_def split: list.splits)
  then show ?thesis
    by (auto simp: status_of_def index_def split: prod.splits sum.splits)
qed

theorem malformed_signature_raises_witness:
  "enforce_secret (sample_config\<lparr>enforce_secret := ''s3cret''\<rparr>) \<noteq> []
   \<and> hub_signature (sample_request\<lparr>hub_signature := Some ''sha1''\<rparr>) = Some ''sha1''
   \<and> count_list ''sha1'' CHR ''='' \<noteq> 1
   \<and> req_method (sample_request\<lparr>hub_signature := Some ''sha1''\<rparr>) = ''POST''
   \<and> fst (check_source sample_env (sample_config\<lparr>enforce_secret := ''s3cret''\<rparr>)
            (sample_request\<lparr>hub_signature := Some ''sha1''\<rparr>) sample_world) = Inr ()
   \<and> verify_signature sample_env (sample_config\<lparr>enforce_secret := ''s3cret''\<rparr>)
        (sample_request\<lparr>hub_signature := Some ''sha1''\<rparr>) = Inl (Uncaught ValueError)
   \<and> fst (index sample_env (sample_config\<lparr>enforce_secret := ''s3cret''\<rparr>)
            (sample_request\<lparr>hub_signature := Some ''sha1''\<rparr>) sample_world)
       = Inl (Uncaught ValueError)"
  using malformed_signature_raises [of "sample_config\<lparr>enforce_secret := ''s3cret''\<rparr>"
      "sample_request\<lparr>hub_signature := Some ''sha1''\<rparr>" "''sha1''" sample_env sample_world]
  by (simp add: sample_config_def sample_request_def check_source_def)

section \<open>The handler: verified properties\<close>

text \<open>
  A push event whose payload has no \<^verbatim>\<open>deleted\<close> key and a \<^verbatim>\<open>ref\<close> without a slash: the
  request ends with the \<^verbatim>\<open>IndexError\<close> of line 176, before the push-delete test is reached.
\<close>

theorem push_without_deleted_counterexample:
  "''deleted'' \<notin> set (map fst [(''ref'', JStr ''main'')])
   \<and> index sample_env sample_config
        (sample_request\<lparr>get_json := Some (JObj [(''ref'', JStr ''main'')])\<rparr>) sample_world
       = (Inl (Uncaught IndexError), sample_world)
   \<and> IndexError \<noteq> KeyError"
  by (simp add: index_def check_source_def verify_signature_def dispatch_def sample_config_def
      sample_request_def extraction_defs eval_nat_numeral)

text \<open>
  C9, as the code has it. For every push event whose payload is a mapping without the key
  \<^verbatim>\<open>deleted\<close>, the push-delete test raises \<^verbatim>\<open>KeyError\<close> when it is evaluated. When metadata
  extraction raised nothing, the handler reaches the test and ends with that uncaught
  \<^verbatim>\<open>KeyError\<close> (status 500) instead of skipping or resolving hooks. In every case the handler
  ends with an uncaught exception (status 500) and no hook is resolved or started.
\<close>

theorem push_without_deleted_raises:
  assumes nd: "''deleted'' \<notin> set (map fst kvs)"
  shows "push_delete ''push'' (JObj kvs) = Inl KeyError
    \<and> (extract_metadata ''push'' (JObj kvs) = Inr meta
        \<longrightarrow> dispatch env cfg ''push'' (JObj kvs) w = (Inl (Uncaught KeyError), w)
          \<and> status_of (Uncaught KeyError) = 500
          \<and> (req_method req = ''POST'' \<and> check_source env cfg req w = (Inr (), w1)
              \<and> verify_signature env cfg req = Inr () \<and> github_event req = Some ''push''
              \<and> get_json req = Some (JObj kvs)
              \<longrightarrow> index env cfg req w = (Inl (Uncaught KeyError), w1)))
    \<and> (\<exists>e. dispatch env cfg ''push'' (JObj kvs) w = (Inl (Uncaught e), w)
             \<and> status_of (Uncaught e) = 500)"
proof -
  from nd have "map_of kvs ''deleted'' = None"
    by (simp add: map_of_eq_None_iff)
  then have pd: "push_delete ''push'' (JObj kvs) = Inl KeyError"
    by (simp add: push_delete_def py_getitem_def bind_exc_def)
  have ok: "dispatch env cfg ''push'' (JObj kvs) w' = (Inl (Uncaught KeyError), w')"
    if "extract_metadata ''push'' (JObj kvs) = Inr meta" for w'
    using that pd by (simp add: dispatch_def)
  have any: "\<exists>e. dispatch env cfg ''push'' (JObj kvs) w = (Inl (Uncaught e), w)
             \<and> status_of (Uncaught e) = 500"
    using pd by (cases "extract_metadata ''push'' (JObj kvs)") (simp_all add: dispatch_def status_of_def)
  have idx: "index env cfg req w = (Inl (Uncaught KeyError), w1)"
    if "extract_metadata ''push'' (JObj kvs) = Inr meta"
      and "req_method req = ''POST'' \<and> check_source env cfg req w = (Inr (), w1)
              \<and> verify_signature env cfg req = Inr () \<and> github_event req = Some ''push''
              \<and> get_json req = Some (JObj kvs)"
    using that(2) ok [OF that(1), of w1] by (simp add: index_def)
  have st: "status_of (Uncaught KeyError) = 500" by (simp add: status_of_def)
  from pd ok [of w] any idx st show ?thesis by blast
qed

theorem push_without_deleted_raises_witness:
  "''deleted'' \<notin> set (map fst [(''ref'', JStr ''refs/heads/main'')])
   \<and> extract_metadata ''push'' (JObj [(''ref'', JStr ''refs/heads/main'')])
       = Inr \<lparr>meta_name = JNull, meta_branch = JStr ''main'', meta_event = ''push''\<rparr>
   \<and> index sample_env sample_config
        (sample_request\<lparr>get_json := Some (JObj [(''ref'', JStr ''refs/heads/main'')])\<rparr>) sample_world
       = (Inl (Uncaught KeyError), sample_world)"
  using push_without_deleted_raises [where kvs = "[(''ref'', JStr ''refs/heads/main'')]"
      and meta = "\<lparr>meta_name = JNull, meta_branch = JStr ''main'', meta_event = ''push''\<rparr>"
      and req = "sample_request\<lparr>get_json := Some (JObj [(''ref'', JStr ''refs/heads/main'')])\<rparr>"
      and env = sample_env and cfg = sample_config and w = sample_world and ?w1.0 = sample_world]
  by (simp add: sample_config_def sample_request_def check_source_def verify_signature_def
      extraction_defs eval_nat_numeral)

text \<open>
  C8. A POST request that passes the source and signature checks and whose
  \<^verbatim>\<open>X-GitHub-Event\<close> header is \<^verbatim>\<open>ping\<close> or absent is answered with the document
  \<^verbatim>\<open>{"msg": "pong"}\<close>, whatever the payload is (it is not read) and whatever hooks exist:
  no temporary file is written and no process is started.
\<close>

theorem ping_short_circuit:
  assumes "req_method req = ''POST''"
    and "check_source env cfg req w = (Inr (), w1)"
    and "verify_signature env cfg req = Inr ()"
    and "github_event req = None \<or> github_event req = Some ''ping''"
  shows "index env cfg req w = (Inr (JObj [(''msg'', JStr ''pong'')]), w1)
    \<and> index env cfg (req\<lparr>get_json := payload\<rparr>) w = (Inr (JObj [(''msg'', JStr ''pong'')]), w1)
    \<and> files w1 = files w \<and> spawned w1 = spawned w"
proof -
  have cs: "check_source env cfg (req\<lparr>get_json := payload\<rparr>) w = check_source env cfg req w"
    by (simp add: check_source_def)
  have vs: "verify_signature env cfg (req\<lparr>get_json := payload\<rparr>) = verify_signature env cfg req"
    by (simp add: verify_signature_def Let_def split: option.splits list.splits)
  from assms have i: "index env cfg req w = (Inr (JObj [(''msg'', JStr ''pong'')]), w1)"
    by (auto simp: index_def pong_def)
  from assms cs vs have j: "index env cfg (req\<lparr>get_json := payload\<rparr>) w = (Inr (JObj [(''msg'', JStr ''pong'')]), w1)"
    by (auto simp: index_def pong_def)
  from assms(2) check_source_files [of env cfg req w] check_source_spawned [of env cfg req w]
  have "files w1 = files w \<and> spawned w1 = spawned w" by simp
  with i j show ?thesis by simp
qed

theorem ping_short_circuit_witness:
  "index sample_env sample_config (sample_request\<lparr>github_event := None\<rparr>) sample_world
     = (Inr (JObj [(''msg'', JStr ''pong'')]), sample_world)
   \<and> index sample_env sample_config
        (sample_request\<lparr>github_event := None, get_json := None\<rparr>) sample_world
     = (Inr (JObj [(''msg'', JStr ''pong'')]), sample_world)"
  using ping_short_circuit [where req = "sample_request\<lparr>github_event := None\<rparr>"
      and env = sample_env and cfg = sample_config and w = sample_world and ?w1.0 = sample_world
      and payload = None]
  by (simp add: sample_config_def sample_request_def check_source_def verify_signature_def)

section \<open>Allow-list cache: verified properties\<close>




section \<open>Signature: the digest\<close>

text \<open>
  What the digest comparison does under each interpreter. Under Python 3 no request is
  accepted once a secret is configured, and every header with the tag \<^verbatim>\<open>sha1\<close> ends with the
  \<^verbatim>\<open>TypeError\<close> of \<^verbatim>\<open>hmac.new\<close>. Under Python 2 with an ASCII secret the handler accepts
  exactly the header that carries the digest, and answers 403 or 501 to a header with one
  \<^verbatim>\<open>=\<close> and an ASCII digest.
\<close>

lemma sample_digest: "hexdigest [0x5a, 0x0f :: 8 word] = ''5a0f''"
  by (simp add: hexdigest_def hexdigit_def)

lemma hexdigit_ascii: "\<not> digit7 (hexdigit n)"
  using hexdigit_in [of n] by auto

lemma hexdigest_ascii: "is_ascii (hexdigest bs)"
  by (induction bs) (simp_all add: hexdigest_def is_ascii_def hexdigit_ascii)

lemma verify_signature_python3:
  assumes py: "python3 env" and secret: "enforce_secret cfg \<noteq> []"
  shows "verify_signature env cfg req \<noteq> Inr ()
    \<and> (hub_signature req = Some (''sha1='' @ sig) \<and> CHR ''='' \<notin> set sig
        \<longrightarrow> verify_signature env cfg req = Inl (Uncaught TypeError))"
proof -
  have "verify_signature env cfg req \<noteq> Inr ()"
    using py secret
    by (simp add: verify_signature_def Let_def str_text_def hmac_new_def bind_exc_def
        split: option.splits list.splits)
  moreover have "verify_signature env cfg req = Inl (Uncaught TypeError)"
    if "hub_signature req = Some (''sha1='' @ sig)" "CHR ''='' \<notin> set sig"
  proof -
    from that(2) have "split_chr CHR ''='' (''sha1'' @ CHR ''='' # sig) = [''sha1'', sig]"
      by (simp add: split_chr_no_sep)
    with that(1) py secret show ?thesis
      by (simp add: verify_signature_def Let_def str_text_def hmac_new_def bind_exc_def)
  qed
  ultimately show ?thesis by blast
qed

lemma verify_signature_python2:
  fixes env :: env and cfg :: config and req :: request
  defines "digest \<equiv> hexdigest (hmac_sha1 env (enforce_secret cfg) (req_data req))"
  assumes py: "\<not> python3 env" and secret: "enforce_secret cfg \<noteq> []"
    and ascii: "is_ascii (enforce_secret cfg)"
  shows "(verify_signature env cfg req = Inr () \<longleftrightarrow> hub_signature req = Some (''sha1='' @ digest))
    \<and> (hub_signature req = None \<longrightarrow> verify_signature env cfg req = Inl (Abort 403))
    \<and> (hub_signature req = Some (tag @ ''='' @ sig) \<and> CHR ''='' \<notin> set tag \<and> CHR ''='' \<notin> set sig
        \<and> is_ascii sig
        \<longrightarrow> verify_signature env cfg req
            = (if tag \<noteq> ''sha1'' then Inl (Abort 501)
               else if sig \<noteq> digest then Inl (Abort 403)
               else Inr ()))"
proof -
  have none: "verify_signature env cfg req = Inl (Abort 403)" if "hub_signature req = None"
    using that secret by (simp add: verify_signature_def)
  have wf: "verify_signature env cfg req
            = (if tag \<noteq> ''sha1'' then Inl (Abort 501)
               else if sig \<noteq> digest then Inl (Abort 403)
               else Inr ())"
    if "hub_signature req = Some (tag @ ''='' @ sig)" "CHR ''='' \<notin> set tag" "CHR ''='' \<notin> set sig"
      "is_ascii sig" for tag sig
  proof -
    from that(2,3) have "split_chr CHR ''='' (tag @ ''='' @ sig) = [tag, sig]"
      by (simp add: split_chr_append split_chr_no_sep)
    with that(1,4) secret py ascii show ?thesis
      by (auto simp: verify_signature_def digest_def Let_def str_text_def hmac_new_def
          compare_digest_def bind_exc_def)
  qed
  have acc: "verify_signature env cfg req = Inr () \<longleftrightarrow> hub_signature req = Some (''sha1='' @ digest)"
  proof
    assume ok: "verify_signature env cfg req = Inr ()"
    with none obtain h where h: "hub_signature req = Some h" by (cases "hub_signature req") auto
    with ok secret obtain a b where ab: "split_chr CHR ''='' h = [a, b]"
      by (auto simp: verify_signature_def Let_def split: list.splits)
    with ok secret h py ascii have "a = ''sha1''" and "b = digest"
      by (auto simp: verify_signature_def Let_def digest_def str_text_def hmac_new_def
          compare_digest_def bind_exc_def split: if_splits)
    with split_chr_pair [OF ab] h show "hub_signature req = Some (''sha1='' @ digest)" by simp
  next
    assume "hub_signature req = Some (''sha1='' @ digest)"
    then have "hub_signature req = Some (''sha1'' @ ''='' @ digest)" by simp
    from wf [OF this] show "verify_signature env cfg req = Inr ()"
      by (simp add: digest_def hexdigest_no_eq hexdigest_ascii)
  qed
  from none wf acc show ?thesis by blast
qed

text \<open>
  C4. The specification says that verification accepts exactly when the header is
  \<^verbatim>\<open>sha1=\<close> followed by the hexadecimal HMAC-SHA1 digest, rejects a wrong digest with 403 and
  any other tag with 501. With the secret \<^verbatim>\<open>s3cret\<close> configured, the handler does otherwise on
  these requests. Under Python 3 the header that carries the right digest, and one that
  carries a wrong digest, both end with the uncaught \<^verbatim>\<open>TypeError\<close> of \<^verbatim>\<open>hmac.new\<close> (line 132),
  also at the level of the whole request. Under either interpreter the header
  \<^verbatim>\<open>md5=a=b\<close> ends with the uncaught \<^verbatim>\<open>ValueError\<close> of line 127, and under Python 2 a digest
  that is not ASCII ends with the uncaught \<^verbatim>\<open>UnicodeEncodeError\<close> of \<^verbatim>\<open>str\<close> (line 136).
\<close>

theorem signature_check_failing_inputs:
  "hexdigest (hmac_sha1 sample_env ''s3cret'' (req_data sample_request)) = ''5a0f''
   \<and> verify_signature (sample_env\<lparr>python3 := True\<rparr>) (sample_config\<lparr>enforce_secret := ''s3cret''\<rparr>)
        (sample_request\<lparr>hub_signature := Some ''sha1=5a0f''\<rparr>) = Inl (Uncaught TypeError)
   \<and> verify_signature (sample_env\<lparr>python3 := True\<rparr>) (sample_config\<lparr>enforce_secret := ''s3cret''\<rparr>)
        (sample_request\<lparr>hub_signature := Some ''sha1=0000''\<rparr>) = Inl (Uncaught TypeError)
   \<and> verify_signature sample_env (sample_config\<lparr>enforce_secret := ''s3cret''\<rparr>)
        (sample_request\<lparr>hub_signature := Some ''md5=a=b''\<rparr>) = Inl (Uncaught ValueError)
   \<and> verify_signature sample_env (sample_config\<lparr>enforce_secret := ''s3cret''\<rparr>)
        (sample_request\<lparr>hub_signature := Some (''sha1='' @ [CHR 0xE9])\<rparr>)
       = Inl (Uncaught UnicodeEncodeError)
   \<and> fst (index (sample_env\<lparr>python3 := True\<rparr>) (sample_config\<lparr>enforce_secret := ''s3cret''\<rparr>)
        (sample_request\<lparr>hub_signature := Some ''sha1=5a0f''\<rparr>) sample_world)
       = Inl (Uncaught TypeError)"
  by (simp add: verify_signature_def str_text_def hmac_new_def compare_digest_def bind_exc_def
      is_ascii_def index_def check_source_def sample_env_def sample_config_def
      sample_request_def sample_digest)

section \<open>Hook resolution and execution on whole requests\<close>

lemmas handler_defs = index_def check_source_def verify_signature_def dispatch_def
  push_delete_def possible_hooks_def check_permissions_def execute_hooks_def remove_file_def
  join_def isabs_def basename_def hook_info_def truthy_def py_str_def status_doc_def Let_def

lemmas sample_defs = sample_env_def sample_config_def sample_request_def sample_world_def






lemma run_scripts_returns:
  "hooks_return env t ev scripts (spawned w) \<Longrightarrow> \<exists>r'. fst (run_scripts env t ev scripts r w) = Inr r'"
  by (induction scripts arbitrary: r w)
     (auto simp: Let_def split: sum.splits option.splits prod.splits)

lemma run_scripts_raises:
  "\<not> hooks_return env t ev scripts (spawned w) \<Longrightarrow> \<exists>e. fst (run_scripts env t ev scripts r w) = Inl e"
  by (induction scripts arbitrary: r w)
     (auto simp: Let_def split: sum.splits option.splits prod.splits)







text \<open>
  A push request with one matching hook whose start raises \<^verbatim>\<open>OSError\<close> (a file with the
  executable bit that the system cannot run): no temporary file exists before the request,
  the request ends with the uncaught exception, and the temporary file still exists
  afterwards.
\<close>

theorem popen_raises_counterexample:
  "files sample_world = {}
   \<and> fst (index (sample_env\<lparr>popen := (\<lambda>started argv. Inl OSError)\<rparr>) sample_config sample_request
            sample_world) = Inl (Uncaught OSError)
   \<and> files (snd (index (sample_env\<lparr>popen := (\<lambda>started argv. Inl OSError)\<rparr>) sample_config
                   sample_request sample_world)) = {''/tmp/tmpq1w2e3''}"
  by (simp add: handler_defs sample_defs extraction_defs eval_nat_numeral)

text \<open>
  C1, as the code has it. For every request that reaches hook execution, the temporary
  payload file is removed before the request completes exactly when every hook invocation
  returns, whatever the return codes of the hooks: then the handler answers and the file no
  longer exists. When starting a hook or decoding its output raises, the request ends with
  that exception and the file is left in place.
\<close>

theorem tmpfile_removed_iff_hooks_return:
  fixes env :: env and w :: world and cfg :: config and event :: string
    and scripts :: "string list"
  defines "tmpfile \<equiv> mkstemp env (files w)"
  defines "res \<equiv> execute_hooks env cfg event scripts w"
  shows "(hooks_return env tmpfile event scripts (spawned w)
          \<longrightarrow> (\<exists>doc. fst res = Inr doc) \<and> tmpfile \<notin> files (snd res)
              \<and> files (snd res) = files w - {tmpfile})
    \<and> (\<not> hooks_return env tmpfile event scripts (spawned w)
          \<longrightarrow> (\<exists>e. fst res = Inl (Uncaught e)) \<and> tmpfile \<in> files (snd res))"
proof -
  let ?w1 = "w\<lparr>files := insert tmpfile (files w)\<rparr>"
  obtain r w2 where rs: "run_scripts env tmpfile event scripts [] ?w1 = (r, w2)"
    by (cases "run_scripts env tmpfile event scripts [] ?w1") auto
  with run_scripts_files [of env tmpfile event scripts "[]" ?w1]
  have f2: "files w2 = insert tmpfile (files w)" by simp
  have pos: "(\<exists>doc. fst res = Inr doc) \<and> tmpfile \<notin> files (snd res)
              \<and> files (snd res) = files w - {tmpfile}"
    if "hooks_return env tmpfile event scripts (spawned w)"
  proof -
    from that run_scripts_returns [of env tmpfile event scripts ?w1 "[]"] rs
    obtain r' where "r = Inr r'" by auto
    with rs f2 show ?thesis
      by (auto simp: res_def execute_hooks_def tmpfile_def [symmetric] remove_file_def Let_def)
  qed
  have neg: "(\<exists>e. fst res = Inl (Uncaught e)) \<and> tmpfile \<in> files (snd res)"
    if "\<not> hooks_return env tmpfile event scripts (spawned w)"
  proof -
    from that run_scripts_raises [of env tmpfile event scripts ?w1 "[]"] rs
    obtain e where "r = Inl e" by auto
    with rs f2 show ?thesis
      by (auto simp: res_def execute_hooks_def tmpfile_def [symmetric] Let_def)
  qed
  from pos neg show ?thesis by blast
qed


theorem tmpfile_removed_iff_hooks_return_witness:
  "hooks_return (sample_env\<lparr>popen := (\<lambda>started argv. Inr (1, [], []))\<rparr>)
      ''/tmp/tmpq1w2e3'' ''push'' [''/srv/hooks/push'', ''/srv/hooks/all''] []
   \<and> ''/tmp/tmpq1w2e3'' \<notin> files (snd (execute_hooks
        (sample_env\<lparr>popen := (\<lambda>started argv. Inr (1, [], []))\<rparr>) sample_config ''push''
        [''/srv/hooks/push'', ''/srv/hooks/all''] sample_world))
   \<and> \<not> hooks_return (sample_env\<lparr>popen := (\<lambda>started argv. Inl OSError)\<rparr>)
      ''/tmp/tmpq1w2e3'' ''push'' [''/srv/hooks/push'', ''/srv/hooks/all''] []
   \<and> ''/tmp/tmpq1w2e3'' \<in> files (snd (execute_hooks
        (sample_env\<lparr>popen := (\<lambda>started argv. Inl OSError)\<rparr>) sample_config ''push''
        [''/srv/hooks/push'', ''/srv/hooks/all''] sample_world))"
proof -
  let ?ok = "sample_env\<lparr>popen := (\<lambda>started argv. Inr (1, [], []))\<rparr>"
  let ?bad = "sample_env\<lparr>popen := (\<lambda>started argv. Inl OSError)\<rparr>"
  let ?scripts = "[''/srv/hooks/push'', ''/srv/hooks/all'']"
  have a: "hooks_return ?ok ''/tmp/tmpq1w2e3'' ''push'' ?scripts []"
    by (simp add: sample_env_def)
  have b: "\<not> hooks_return ?bad ''/tmp/tmpq1w2e3'' ''push'' ?scripts []"
    by (simp add: sample_env_def)
  have c: "''/tmp/tmpq1w2e3'' \<notin> files (snd (execute_hooks ?ok sample_config ''push'' ?scripts sample_world))"
    using tmpfile_removed_iff_hooks_return [where env = ?ok and w = sample_world
        and cfg = sample_config and event = "''push''" and scripts = ?scripts] a
    by (simp add: sample_env_def sample_world_def)
  have d: "''/tmp/tmpq1w2e3'' \<in> files (snd (execute_hooks ?bad sample_config ''push'' ?scripts sample_world))"
    using tmpfile_removed_iff_hooks_return [where env = ?bad and w = sample_world
        and cfg = sample_config and event = "''push''" and scripts = ?scripts] b
    by (simp add: sample_env_def sample_world_def)
  from a b c d show ?thesis by simp
qed

end
